theory Spec2Isabelle
  imports Complex_Main
begin

section \<open>Numbers\<close>

text \<open>
  The program is JavaScript; every quantity below is a JavaScript number. The model reads
  them as mathematical reals. The quantities the theorems compute with (positions that are
  multiples of 2, velocities that are multiples of 0.5, the constants 12, 40, 50, 100, 120,
  320, 568) are dyadic rationals of small magnitude, so the arithmetic on them is exact in
  double precision as well. The values of \<open>Math.random()\<close> are arbitrary reals in [0, 1).
  Timestamps (\<open>Date.now()\<close>, milliseconds) and scores are integers.
\<close>

section \<open>Bird (js/bird.js)\<close>

text \<open>
  The fields of class \<open>Bird\<close>, without the three colour strings that only \<open>render\<close> reads.
  The coordinates are called \<open>bird_x\<close> and \<open>bird_y\<close> (the source's \<open>x\<close> and \<open>y\<close>).
\<close>

record bird =
  bird_x :: real
  bird_y :: real
  width :: real
  height :: real
  velocity :: real
  gravity :: real
  jumpVelocity :: real
  maxFallVelocity :: real
  rotation :: real
  targetRotation :: real

text \<open>The constructor \<open>new Bird(x, y)\<close>.\<close>

definition Bird :: "real \<Rightarrow> real \<Rightarrow> bird" where
  "Bird x0 y0 =
     \<lparr> bird_x = x0, bird_y = y0, width = 20, height = 20, velocity = 0,
       gravity = 0.5, jumpVelocity = - 8, maxFallVelocity = 12,
       rotation = 0, targetRotation = 0 \<rparr>"

text \<open>
  \<open>Bird.update()\<close>, statement by statement: gravity, the fall-speed cap, the move, the clamp
  at the top of the screen, then the rotation easing.
\<close>

definition Bird_update :: "bird \<Rightarrow> bird" where
  "Bird_update b =
     (let b1 = b\<lparr>velocity := velocity b + gravity b\<rparr>;
          b2 = (if velocity b1 > maxFallVelocity b1
                then b1\<lparr>velocity := maxFallVelocity b1\<rparr> else b1);
          b3 = b2\<lparr>bird_y := bird_y b2 + velocity b2\<rparr>;
          b4 = (if bird_y b3 < 0 then b3\<lparr>bird_y := 0, velocity := 0\<rparr> else b3);
          b5 = b4\<lparr>targetRotation := min (max (velocity b4 * 3) (- 30)) 90\<rparr>
      in b5\<lparr>rotation := rotation b5 + (targetRotation b5 - rotation b5) * 0.1\<rparr>)"

text \<open>\<open>Bird.jump()\<close>.\<close>

definition Bird_jump :: "bird \<Rightarrow> bird" where
  "Bird_jump b = b\<lparr>velocity := jumpVelocity b, rotation := - 20\<rparr>"

text \<open>\<open>Bird.getBounds()\<close>: the box as (x, y, width, height), x and y its top-left corner.\<close>

record bounds =
  bounds_x :: real
  bounds_y :: real
  bounds_width :: real
  bounds_height :: real

definition Bird_getBounds :: "bird \<Rightarrow> bounds" where
  "Bird_getBounds b =
     \<lparr> bounds_x = bird_x b - width b / 2, bounds_y = bird_y b - height b / 2,
       bounds_width = width b, bounds_height = height b \<rparr>"

text \<open>\<open>Bird.isGrounded(canvasHeight)\<close> and \<open>Bird.isOutOfBounds(canvasHeight)\<close>.\<close>

definition Bird_isGrounded :: "bird \<Rightarrow> real \<Rightarrow> bool" where
  "Bird_isGrounded b canvasHeight \<longleftrightarrow> bird_y b + height b / 2 \<ge> canvasHeight - 50"

definition Bird_isOutOfBounds :: "bird \<Rightarrow> real \<Rightarrow> bool" where
  "Bird_isOutOfBounds b canvasHeight \<longleftrightarrow> bird_y b - height b / 2 > canvasHeight"

text \<open>\<open>Bird.reset(x, y)\<close> and \<open>Bird.bounce()\<close>.\<close>

definition Bird_reset :: "bird \<Rightarrow> real \<Rightarrow> real \<Rightarrow> bird" where
  "Bird_reset b x0 y0 =
     b\<lparr>bird_x := x0, bird_y := y0, velocity := 0, rotation := 0, targetRotation := 0\<rparr>"

definition Bird_bounce :: "bird \<Rightarrow> bird" where
  "Bird_bounce b = b\<lparr>velocity := - velocity b * 0.3, rotation := 0\<rparr>"

text \<open>
  A caller drives a bird by a sequence of \<open>update\<close> and \<open>jump\<close> calls; \<open>Bird_run\<close> performs
  them from left to right.
\<close>

datatype bird_call = Update | Jump

fun Bird_call :: "bird \<Rightarrow> bird_call \<Rightarrow> bird" where
  "Bird_call b Update = Bird_update b"
| "Bird_call b Jump = Bird_jump b"

fun Bird_run :: "bird \<Rightarrow> bird_call list \<Rightarrow> bird" where
  "Bird_run b [] = b"
| "Bird_run b (c # cs) = Bird_run (Bird_call b c) cs"

section \<open>PipeManager (js/pipe.js)\<close>

text \<open>
  A pipe is the object literal built in \<open>generatePipe\<close>; its fields \<open>x\<close> and \<open>id\<close> are called
  \<open>pipe_x\<close> and \<open>pipe_id\<close> here. The manager's fields are those of the constructor without
  the three colour strings; \<open>scoredPipes\<close> is the JavaScript \<open>Set\<close> of pipe ids.
\<close>

record pipe =
  pipe_x :: real
  gapY :: real
  scored :: bool
  pipe_id :: real

record pipe_manager =
  canvasWidth :: real
  canvasHeight :: real
  pipes :: "pipe list"
  pipeWidth :: real
  gapSize :: real
  pipeSpeed :: real
  pipeSpacing :: real
  minGapHeight :: real
  scoredPipes :: "real set"

definition PipeManager :: "real \<Rightarrow> real \<Rightarrow> pipe_manager" where
  "PipeManager cw ch =
     \<lparr> canvasWidth = cw, canvasHeight = ch, pipes = [], pipeWidth = 40, gapSize = 100,
       pipeSpeed = 2, pipeSpacing = 200, minGapHeight = 120, scoredPipes = {} \<rparr>"

text \<open>
  \<open>generatePipe\<close> reads the environment three times, in this order: \<open>Math.random()\<close> for the
  gap, \<open>Date.now()\<close> and \<open>Math.random()\<close> for the id. The three values are the fields of
  \<open>pipe_env\<close>; \<open>Math.random()\<close> returns a number in [0, 1).
\<close>

record pipe_env =
  random_gap :: real
  date_now :: int
  random_id :: real

definition PipeManager_generatePipe :: "pipe_env \<Rightarrow> pipe_manager \<Rightarrow> pipe \<times> pipe_manager" where
  "PipeManager_generatePipe e pm =
     (let minHeight = minGapHeight pm;
          maxHeight = canvasHeight pm - minGapHeight pm - gapSize pm - 50;
          gap = minHeight + random_gap e * (maxHeight - minHeight);
          p = \<lparr> pipe_x = canvasWidth pm, gapY = gap, scored = False,
                pipe_id = real_of_int (date_now e) + random_id e \<rparr>
      in (p, pm\<lparr>pipes := pipes pm @ [p]\<rparr>))"




text \<open>
  \<open>checkScore(bird)\<close>: the \<open>for ... of\<close> loop over the pipes, leaving at the first pipe that the
  bird has passed and whose id is not in \<open>scoredPipes\<close>. The result is the returned flag and
  the manager after the call.
\<close>

fun checkScore_loop :: "real \<Rightarrow> pipe list \<Rightarrow> pipe_manager \<Rightarrow> bool \<times> pipe_manager" where
  "checkScore_loop birdX [] pm = (False, pm)"
| "checkScore_loop birdX (p # ps) pm =
     (if birdX > pipe_x p + pipeWidth pm \<and> pipe_id p \<notin> scoredPipes pm
      then (True, pm\<lparr>scoredPipes := insert (pipe_id p) (scoredPipes pm)\<rparr>)
      else checkScore_loop birdX ps pm)"

definition PipeManager_checkScore :: "bird \<Rightarrow> pipe_manager \<Rightarrow> bool \<times> pipe_manager" where
  "PipeManager_checkScore b pm = checkScore_loop (bird_x b) (pipes pm) pm"

definition PipeManager_reset :: "pipe_manager \<Rightarrow> pipe_manager" where
  "PipeManager_reset pm = pm\<lparr>pipes := [], scoredPipes := {}\<rparr>"

text \<open>
  The condition under which \<open>checkScore\<close> scores a pipe, as a predicate of its own: used to
  state which pipe a call picks.
\<close>

definition qualifies :: "real \<Rightarrow> pipe_manager \<Rightarrow> pipe \<Rightarrow> bool" where
  "qualifies birdX pm p \<longleftrightarrow> birdX > pipe_x p + pipeWidth pm \<and> pipe_id p \<notin> scoredPipes pm"

section \<open>ScoreManager (js/score.js)\<close>

text \<open>
  The scores are integers. \<open>localStorage\<close> holds two decimal strings; the model keeps the
  integer each one denotes (\<open>None\<close> when the key is absent) and takes every write to succeed.
\<close>

record local_storage =
  flappyBirdHighScore :: "int option"
  flappyBirdGamesPlayed :: "int option"

record score_popup =
  popup_x :: real
  popup_y :: real
  popup_value :: string
  opacity :: real
  scale :: real
  startTime :: int

record score_manager =
  currentScore :: int
  highScore :: int
  scoreAnimations :: "score_popup list"
  scorePerPipe :: int

text \<open>The constructor, with \<open>loadHighScore\<close>: \<open>parseInt(saved, 10) || 0\<close> when the key is there.\<close>

definition ScoreManager :: "local_storage \<Rightarrow> score_manager" where
  "ScoreManager st =
     \<lparr> currentScore = 0,
       highScore = (case flappyBirdHighScore st of None \<Rightarrow> 0 | Some n \<Rightarrow> n),
       scoreAnimations = [], scorePerPipe = 1 \<rparr>"

definition ScoreManager_resetScore :: "score_manager \<Rightarrow> score_manager" where
  "ScoreManager_resetScore sm = sm\<lparr>currentScore := 0, scoreAnimations := []\<rparr>"

definition ScoreManager_isNewHighScore :: "score_manager \<Rightarrow> bool" where
  "ScoreManager_isNewHighScore sm \<longleftrightarrow>
     currentScore sm > highScore sm \<or> currentScore sm = highScore sm \<and> currentScore sm > 0"

definition ScoreManager_getTotalGamesPlayed :: "local_storage \<Rightarrow> int" where
  "ScoreManager_getTotalGamesPlayed st =
     (case flappyBirdGamesPlayed st of None \<Rightarrow> 0 | Some n \<Rightarrow> n)"

definition ScoreManager_incrementGamesPlayed :: "local_storage \<Rightarrow> local_storage" where
  "ScoreManager_incrementGamesPlayed st =
     st\<lparr>flappyBirdGamesPlayed := Some (ScoreManager_getTotalGamesPlayed st + 1)\<rparr>"

section \<open>InputHandler (js/input.js)\<close>

text \<open>
  A subscriber is a JavaScript closure that changes the objects it captured. Here it is a
  function on the state \<open>'w\<close> of those objects that either returns or throws;
  \<open>triggerCallbacks\<close> catches what is thrown and goes on with the next subscriber. The
  handler keeps one subscriber list per event name.
\<close>

datatype 'w outcome = Returned 'w | Threw 'w

datatype input_event = jump | gameStart | gameRestart

record 'w input_handler =
  callbacks :: "input_event \<Rightarrow> ('w \<Rightarrow> 'w outcome) list"
  isJumping :: bool
  jumpCooldown :: int
  lastJumpTime :: int
  touchStartY :: real
  isTouching :: bool

definition InputHandler :: "'w input_handler" where
  "InputHandler =
     \<lparr> callbacks = (\<lambda>ev. []), isJumping = False, jumpCooldown = 100, lastJumpTime = 0,
       touchStartY = 0, isTouching = False \<rparr>"

definition InputHandler_on ::
  "input_event \<Rightarrow> ('w \<Rightarrow> 'w outcome) \<Rightarrow> 'w input_handler \<Rightarrow> 'w input_handler" where
  "InputHandler_on ev cb ih = ih\<lparr>callbacks := (callbacks ih)(ev := callbacks ih ev @ [cb])\<rparr>"

fun run_callbacks :: "('w \<Rightarrow> 'w outcome) list \<Rightarrow> 'w \<Rightarrow> 'w" where
  "run_callbacks [] w = w"
| "run_callbacks (cb # cbs) w =
     (case cb w of Returned w' \<Rightarrow> run_callbacks cbs w' | Threw w' \<Rightarrow> run_callbacks cbs w')"

definition InputHandler_triggerCallbacks :: "input_event \<Rightarrow> 'w input_handler \<Rightarrow> 'w \<Rightarrow> 'w" where
  "InputHandler_triggerCallbacks ev ih w = run_callbacks (callbacks ih ev) w"

text \<open>
  \<open>handleJump()\<close>, with the value of \<open>Date.now()\<close> as its argument. The visual feedback touches
  the page only; the timer that clears \<open>isJumping\<close> 100 ms later is the separate step
  \<open>InputHandler_jumpTimeout\<close>.
\<close>

definition InputHandler_handleJump ::
  "int \<Rightarrow> 'w input_handler \<times> 'w \<Rightarrow> 'w input_handler \<times> 'w" where
  "InputHandler_handleJump now s =
     (let ih = fst s; w = snd s
      in if now - lastJumpTime ih < jumpCooldown ih then (ih, w)
         else (let ih1 = ih\<lparr>lastJumpTime := now, isJumping := True\<rparr>
               in (ih1, InputHandler_triggerCallbacks jump ih1 w)))"

text \<open>Successive jump events, given by the clock readings at which they arrive.\<close>

fun InputHandler_handleJumps ::
  "int list \<Rightarrow> 'w input_handler \<times> 'w \<Rightarrow> 'w input_handler \<times> 'w" where
  "InputHandler_handleJumps [] s = s"
| "InputHandler_handleJumps (t # ts) s = InputHandler_handleJumps ts (InputHandler_handleJump t s)"

text \<open>
  The debounce as the specification words it, to compare the code with: given the time
  \<open>t0\<close> of the last accepted event, an event is accepted exactly when it comes at least
  100 ms after \<open>t0\<close>, and only an accepted event becomes the new \<open>t0\<close>. The result lists, event
  by event, whether it is accepted.
\<close>

fun spec_accepted :: "int \<Rightarrow> int list \<Rightarrow> bool list" where
  "spec_accepted t0 [] = []"
| "spec_accepted t0 (t # ts) =
     (if t - t0 \<ge> 100 then True # spec_accepted t ts else False # spec_accepted t0 ts)"

definition InputHandler_jumpTimeout :: "'w input_handler \<Rightarrow> 'w input_handler" where
  "InputHandler_jumpTimeout ih = ih\<lparr>isJumping := False\<rparr>"

definition InputHandler_reset :: "'w input_handler \<Rightarrow> 'w input_handler" where
  "InputHandler_reset ih =
     ih\<lparr>isJumping := False, lastJumpTime := 0, touchStartY := 0, isTouching := False\<rparr>"

section \<open>GameStateManager (js/game-states.js)\<close>

text \<open>
  The manager together with the objects it holds references to: the bird, the pipe manager,
  the score manager and the browser's storage. The page elements it shows and hides and the
  sounds it plays are left out; they are written and never read by the code below.
\<close>

datatype state = MENU | PLAYING | GAME_OVER

record game_state_manager =
  bird :: bird
  pipeManager :: pipe_manager
  scoreManager :: score_manager
  storage :: local_storage
  currentState :: state
  menuBirdY :: real
  menuBirdVelocity :: real
  collisionPoint :: "(real \<times> real) option"

definition resetGameObjects :: "game_state_manager \<Rightarrow> game_state_manager" where
  "resetGameObjects g =
     g\<lparr>bird := Bird_reset (bird g) 80 200,
       pipeManager := PipeManager_reset (pipeManager g),
       scoreManager := ScoreManager_resetScore (scoreManager g),
       collisionPoint := None\<rparr>"

definition enterMenuState :: "game_state_manager \<Rightarrow> game_state_manager" where
  "enterMenuState g = (resetGameObjects g)\<lparr>menuBirdY := 100, menuBirdVelocity := 0\<rparr>"

definition enterPlayingState :: "game_state_manager \<Rightarrow> game_state_manager" where
  "enterPlayingState g =
     g\<lparr>scoreManager := ScoreManager_resetScore (scoreManager g),
       storage := ScoreManager_incrementGamesPlayed (storage g)\<rparr>"

text \<open>\<open>enterGameOverState\<close> only writes to the page and plays a sound.\<close>

definition enterGameOverState :: "game_state_manager \<Rightarrow> game_state_manager" where
  "enterGameOverState g = g"

definition setState :: "state \<Rightarrow> game_state_manager \<Rightarrow> game_state_manager" where
  "setState newState g =
     (let g1 = g\<lparr>currentState := newState\<rparr>
      in case newState of
           MENU \<Rightarrow> enterMenuState g1
         | PLAYING \<Rightarrow> enterPlayingState g1
         | GAME_OVER \<Rightarrow> enterGameOverState g1)"

definition startGame :: "game_state_manager \<Rightarrow> game_state_manager" where
  "startGame g = setState PLAYING g"

definition restartGame :: "game_state_manager \<Rightarrow> game_state_manager" where
  "restartGame g = setState PLAYING (resetGameObjects g)"

text \<open>The three arrow functions that \<open>setupInputCallbacks\<close> subscribes, and the method itself.\<close>

definition onGameStart :: "game_state_manager \<Rightarrow> game_state_manager outcome" where
  "onGameStart g = Returned (if currentState g = MENU then startGame g else g)"

definition onGameRestart :: "game_state_manager \<Rightarrow> game_state_manager outcome" where
  "onGameRestart g = Returned (if currentState g = GAME_OVER then restartGame g else g)"

definition onJump :: "game_state_manager \<Rightarrow> game_state_manager outcome" where
  "onJump g = Returned (if currentState g = PLAYING then g\<lparr>bird := Bird_jump (bird g)\<rparr> else g)"

definition setupInputCallbacks ::
  "game_state_manager input_handler \<Rightarrow> game_state_manager input_handler" where
  "setupInputCallbacks ih =
     InputHandler_on jump onJump
       (InputHandler_on gameRestart onGameRestart
          (InputHandler_on gameStart onGameStart ih))"



section \<open>Bird: falling, the top of the screen, the ground\<close>

lemma Bird_update_fall:
  assumes "0 \<le> velocity b" "- (1/2) \<le> bird_y b" "gravity b = 1/2" "maxFallVelocity b = 12"
  shows "velocity (Bird_update b) = min (velocity b + 1/2) 12"
    and "bird_y (Bird_update b) = bird_y b + min (velocity b + 1/2) 12"
    and "gravity (Bird_update b) = 1/2"
    and "maxFallVelocity (Bird_update b) = 12"
  using assms by (simp_all add: Bird_update_def Let_def min_def)

text \<open>
  \<open>n\<close> updates of a bird at rest that is not above the screen: the velocity is the capped
  multiple of the gravity, the height is the running sum of the velocities.
\<close>

lemma Bird_update_iter:
  assumes "velocity b = 0" "- (1/2) \<le> bird_y b" "gravity b = 1/2" "maxFallVelocity b = 12"
  shows "velocity ((Bird_update ^^ n) b) = min (real n / 2) 12
       \<and> bird_y ((Bird_update ^^ n) b) = bird_y b + (\<Sum>k<n. min (real (Suc k) / 2) 12)
       \<and> gravity ((Bird_update ^^ n) b) = 1/2
       \<and> maxFallVelocity ((Bird_update ^^ n) b) = 12"
proof (induction n)
  case 0
  then show ?case using assms by simp
next
  case (Suc n)
  let ?c = "(Bird_update ^^ n) b"
  from Suc have v: "velocity ?c = min (real n / 2) 12"
    and y: "bird_y ?c = bird_y b + (\<Sum>k<n. min (real (Suc k) / 2) 12)"
    and g: "gravity ?c = 1/2" and m: "maxFallVelocity ?c = 12" by simp_all
  have v0: "0 \<le> velocity ?c" using v by simp
  have "0 \<le> (\<Sum>k<n. min (real (Suc k) / 2) 12)" by (intro sum_nonneg) simp
  then have y0: "- (1/2) \<le> bird_y ?c" using y assms(2) by simp
  have v': "velocity (Bird_update ?c) = min (real (Suc n) / 2) 12"
    using Bird_update_fall(1)[OF v0 y0 g m] v by (simp add: min_def)
  have "bird_y (Bird_update ?c) = bird_y ?c + min (real (Suc n) / 2) 12"
    using Bird_update_fall(2)[OF v0 y0 g m] v by (simp add: min_def)
  then have "bird_y (Bird_update ?c) = bird_y b + (\<Sum>k<Suc n. min (real (Suc k) / 2) 12)"
    using y by simp
  then show ?case
    using v' Bird_update_fall(3,4)[OF v0 y0 g m] by simp
qed

text \<open>
  Claim C4, as amended. A bird that was just constructed or reset at a height \<open>y0 \<ge> -0.5\<close>
  (every height on the screen, \<open>y0 \<ge> 0\<close>, is one) and is then only updated has, after \<open>n\<close>
  updates, the velocity \<open>min (n \<cdot> 0.5) 12\<close>, where 0.5 is its gravity and 12 its maximal
  fall velocity. From (80, 200), five updates give the velocity 2.5 and the height 207.5.
\<close>

theorem Bird_fall_velocity:
  assumes "- (1/2) \<le> y0"
  shows "gravity (Bird x0 y0) = 0.5 \<and> maxFallVelocity (Bird x0 y0) = 12 \<and>
         velocity ((Bird_update ^^ n) (Bird x0 y0)) = min (real n * 0.5) 12 \<and>
         (gravity b = 0.5 \<and> maxFallVelocity b = 12 \<longrightarrow>
            velocity ((Bird_update ^^ n) (Bird_reset b x0 y0)) = min (real n * 0.5) 12) \<and>
         velocity ((Bird_update ^^ 5) (Bird 80 200)) = 2.5 \<and>
         bird_y ((Bird_update ^^ 5) (Bird 80 200)) = 207.5"
proof -
  have new: "velocity ((Bird_update ^^ n) (Bird x0 y0)) = min (real n * 0.5) 12"
    using Bird_update_iter[of "Bird x0 y0" n] assms by (simp add: Bird_def)
  have reset: "velocity ((Bird_update ^^ n) (Bird_reset b x0 y0)) = min (real n * 0.5) 12"
    if "gravity b = 0.5" "maxFallVelocity b = 12"
    using Bird_update_iter[of "Bird_reset b x0 y0" n] assms that by (simp add: Bird_reset_def)
  have five: "velocity ((Bird_update ^^ 5) (Bird 80 200)) = 2.5 \<and>
              bird_y ((Bird_update ^^ 5) (Bird 80 200)) = 207.5"
    using Bird_update_iter[of "Bird 80 200" 5]
    by (simp add: Bird_def lessThan_nat_numeral lessThan_Suc)
  show ?thesis using new reset five by (simp add: Bird_def)
qed

theorem Bird_fall_velocity_witness:
  "- (1/2) \<le> (200::real) \<and> gravity (Bird 10 0) = 0.5 \<and> maxFallVelocity (Bird 10 0) = 12 \<and>
   velocity ((Bird_update ^^ 30) (Bird 80 200)) = 12 \<and>
   velocity ((Bird_update ^^ 3) (Bird_reset (Bird 10 0) 80 200)) = 1.5"
  using Bird_fall_velocity[of 200 80 30 "Bird 10 0"] Bird_fall_velocity[of 200 80 3 "Bird 10 0"]
  by (simp add: Bird_def)

text \<open>
  Claim C4 as it is written fails for a bird constructed above the top of the screen: its
  first update moves it to -0.5, the clamp puts it at 0 and sets the velocity to 0, not 0.5.
\<close>

theorem Bird_fall_velocity_counterexample:
  "velocity ((Bird_update ^^ 1) (Bird 80 (- 1))) = 0 \<and>
   velocity ((Bird_update ^^ 1) (Bird 80 (- 1))) \<noteq> min (real 1 * 0.5) 12"
  by (simp add: Bird_update_def Bird_def Let_def)

lemma Bird_update_nonneg: "0 \<le> bird_y (Bird_update b)"
  by (simp add: Bird_update_def Let_def)

lemma Bird_run_nonneg: "0 \<le> bird_y b \<Longrightarrow> 0 \<le> bird_y (Bird_run b cs)"
proof (induction cs arbitrary: b)
  case Nil
  then show ?case by simp
next
  case (Cons c cs)
  show ?case
  proof (cases c)
    case Update
    then show ?thesis using Cons.IH[OF Bird_update_nonneg] by simp
  next
    case Jump
    then show ?thesis using Cons by (simp add: Bird_jump_def)
  qed
qed

text \<open>
  Claim C7. From a height \<open>y \<ge> 0\<close>, after every call of any sequence of \<open>update\<close> and \<open>jump\<close>
  calls (after each prefix \<open>take n cs\<close> of the sequence) the height is not negative; and an
  update whose move would take the height below 0 leaves the height 0 and the velocity 0.
\<close>

theorem Bird_y_never_negative:
  assumes "0 \<le> bird_y b"
  shows "(\<forall>n\<le>length cs. 0 \<le> bird_y (Bird_run b (take n cs))) \<and>
         (bird_y b + min (velocity b + gravity b) (maxFallVelocity b) < 0 \<longrightarrow>
            bird_y (Bird_update b) = 0 \<and> velocity (Bird_update b) = 0)"
proof -
  have "\<forall>n\<le>length cs. 0 \<le> bird_y (Bird_run b (take n cs))"
    using Bird_run_nonneg[OF assms] by simp
  moreover have "bird_y (Bird_update b) = 0 \<and> velocity (Bird_update b) = 0"
    if "bird_y b + min (velocity b + gravity b) (maxFallVelocity b) < 0"
    using that by (simp add: Bird_update_def Let_def min_def split: if_splits)
  ultimately show ?thesis by simp
qed

theorem Bird_y_never_negative_witness:
  "0 \<le> bird_y (Bird_jump (Bird 80 3)) \<and>
   bird_y (Bird_jump (Bird 80 3))
     + min (velocity (Bird_jump (Bird 80 3)) + gravity (Bird_jump (Bird 80 3)))
           (maxFallVelocity (Bird_jump (Bird 80 3))) < 0 \<and>
   0 \<le> bird_y (Bird_run (Bird_jump (Bird 80 3)) (take 3 [Update, Jump, Update])) \<and>
   bird_y (Bird_update (Bird_jump (Bird 80 3))) = 0 \<and>
   velocity (Bird_update (Bird_jump (Bird 80 3))) = 0"
proof -
  have h: "0 \<le> bird_y (Bird_jump (Bird 80 3))" by (simp add: Bird_jump_def Bird_def)
  have c: "bird_y (Bird_jump (Bird 80 3))
     + min (velocity (Bird_jump (Bird 80 3)) + gravity (Bird_jump (Bird 80 3)))
           (maxFallVelocity (Bird_jump (Bird 80 3))) < 0"
    by (simp add: Bird_jump_def Bird_def)
  have n: "3 \<le> length [Update, Jump, Update]" by simp
  show ?thesis
    using h c n Bird_y_never_negative[OF h, of "[Update, Jump, Update]"] by blast
qed

text \<open>
  Claim C3, as amended. The argument of both predicates is the canvas height (the game passes
  \<open>canvas.height\<close> to both). \<open>isGrounded\<close> holds exactly when the bottom edge of the bounding
  box, \<open>y + height / 2\<close>, reaches or passes the ground line, which is the argument minus 50;
  \<open>isOutOfBounds\<close> holds exactly when the top edge of the box, \<open>y - height / 2\<close>, exceeds the
  argument itself.
\<close>

theorem Bird_grounded_out_of_bounds:
  "(Bird_isGrounded b ch \<longleftrightarrow>
      bounds_y (Bird_getBounds b) + bounds_height (Bird_getBounds b) \<ge> ch - 50) \<and>
   (Bird_isOutOfBounds b ch \<longleftrightarrow> bounds_y (Bird_getBounds b) > ch) \<and>
   bounds_y (Bird_getBounds b) + bounds_height (Bird_getBounds b) = bird_y b + height b / 2 \<and>
   bounds_y (Bird_getBounds b) = bird_y b - height b / 2"
  by (simp add: Bird_isGrounded_def Bird_isOutOfBounds_def Bird_getBounds_def field_simps)

text \<open>
  Claim C3 as it is written compares both edges with the same number. A bird at height 508
  on the canvas of height 568 is grounded, with its bottom edge at 518, above 568.
\<close>

theorem Bird_grounded_counterexample:
  "Bird_isGrounded (Bird 80 508) 568 \<and>
   bounds_y (Bird_getBounds (Bird 80 508)) + bounds_height (Bird_getBounds (Bird 80 508)) = 518 \<and>
   \<not> (Bird_isGrounded (Bird 80 508) 568 \<longleftrightarrow>
        bounds_y (Bird_getBounds (Bird 80 508)) + bounds_height (Bird_getBounds (Bird 80 508))
          \<ge> 568)"
  by (simp add: Bird_isGrounded_def Bird_getBounds_def Bird_def)

section \<open>ScoreManager: the new high score test\<close>

text \<open>
  Claim C2. \<open>isNewHighScore\<close> is true exactly when the current score is above the high score,
  or equal to it and positive: true at (5, 5), false at (5, 6) and at (0, 0).
\<close>

theorem isNewHighScore_iff:
  "(ScoreManager_isNewHighScore sm \<longleftrightarrow>
      currentScore sm > highScore sm \<or> (currentScore sm = highScore sm \<and> currentScore sm > 0)) \<and>
   ScoreManager_isNewHighScore (sm\<lparr>currentScore := 5, highScore := 5\<rparr>) \<and>
   \<not> ScoreManager_isNewHighScore (sm\<lparr>currentScore := 5, highScore := 6\<rparr>) \<and>
   \<not> ScoreManager_isNewHighScore (sm\<lparr>currentScore := 0, highScore := 0\<rparr>)"
  by (simp add: ScoreManager_isNewHighScore_def)

section \<open>PipeManager: moving, removing and generating pipes\<close>



















text \<open>
  What \<open>generatePipe\<close> does on the 320 by 568 canvas of the game, for a gap draw in [0, 1): the
  gap offset is between 120 and 568 - 120 - 100 - 50 = 298, the new pipe is at the right edge
  of the canvas, unscored, appended after the pipes already there, and its id is the clock
  reading plus the second draw.
\<close>

lemma generatePipe_range:
  assumes "0 \<le> random_gap e" "random_gap e < 1"
    and "canvasHeight pm = 568" "minGapHeight pm = 120" "gapSize pm = 100"
    and "PipeManager_generatePipe e pm = (p, pm')"
  shows "120 \<le> gapY p \<and> gapY p \<le> 568 - 120 - 100 - 50 \<and> pipe_x p = canvasWidth pm \<and>
         \<not> scored p \<and> pipes pm' = pipes pm @ [p] \<and>
         pipe_id p = real_of_int (date_now e) + random_id e"
proof -
  have p: "p = \<lparr> pipe_x = canvasWidth pm, gapY = 120 + random_gap e * 178, scored = False,
                 pipe_id = real_of_int (date_now e) + random_id e \<rparr>"
    and pm': "pm' = pm\<lparr>pipes := pipes pm @ [p]\<rparr>"
    using assms(3-6) by (auto simp add: PipeManager_generatePipe_def Let_def)
  have "0 \<le> random_gap e * 178" "random_gap e * 178 \<le> 178" using assms(1,2) by simp_all
  then show ?thesis using p pm' by simp
qed

text \<open>
  The id is fresh when the clock has moved on since every pipe in the field was generated:
  ids of earlier milliseconds are below the current reading.
\<close>

lemma generatePipe_id_fresh_later:
  assumes "0 \<le> random_id e" "\<forall>q\<in>set (pipes pm). pipe_id q < real_of_int (date_now e)"
  shows "pipe_id (fst (PipeManager_generatePipe e pm)) \<notin> pipe_id ` set (pipes pm)"
  using assms by (fastforce simp add: PipeManager_generatePipe_def Let_def)

text \<open>
  Claim C5 at an input where the code does not give a fresh id. Two \<open>generatePipe\<close> calls in
  the same millisecond (clock reading 1000) whose id draws are both 0.5, with different gap
  draws: the field holds two different pipes with the same id 1000.5.
\<close>

theorem generatePipe_id_collision:
  "map pipe_id (pipes (snd (PipeManager_generatePipe
      \<lparr>random_gap = 3/4, date_now = 1000, random_id = 1/2\<rparr>
      (snd (PipeManager_generatePipe \<lparr>random_gap = 1/4, date_now = 1000, random_id = 1/2\<rparr>
         (PipeManager 320 568)))))) = [1000.5, 1000.5] \<and>
   map gapY (pipes (snd (PipeManager_generatePipe
      \<lparr>random_gap = 3/4, date_now = 1000, random_id = 1/2\<rparr>
      (snd (PipeManager_generatePipe \<lparr>random_gap = 1/4, date_now = 1000, random_id = 1/2\<rparr>
         (PipeManager 320 568)))))) = [164.5, 253.5]"
  by (simp add: PipeManager_generatePipe_def PipeManager_def Let_def)

text \<open>
  What the shared id costs: with both pipes behind the bird, the first \<open>checkScore\<close> reports a
  score and the second reports none, since the id of the second pipe is already in
  \<open>scoredPipes\<close>.
\<close>

lemma id_collision_loses_score:
  "fst (PipeManager_checkScore (Bird 80 200)
         ((PipeManager 320 568)\<lparr>pipes :=
            [\<lparr>pipe_x = 10, gapY = 164.5, scored = False, pipe_id = 1000.5\<rparr>,
             \<lparr>pipe_x = 20, gapY = 253.5, scored = False, pipe_id = 1000.5\<rparr>]\<rparr>)) = True \<and>
   fst (PipeManager_checkScore (Bird 80 200)
         (snd (PipeManager_checkScore (Bird 80 200)
            ((PipeManager 320 568)\<lparr>pipes :=
               [\<lparr>pipe_x = 10, gapY = 164.5, scored = False, pipe_id = 1000.5\<rparr>,
                \<lparr>pipe_x = 20, gapY = 253.5, scored = False, pipe_id = 1000.5\<rparr>]\<rparr>)))) = False"
  by (simp add: PipeManager_checkScore_def PipeManager_def Bird_def)

section \<open>PipeManager: scoring\<close>

lemma checkScore_loop_none:
  "\<forall>q\<in>set ps. \<not> qualifies bx pm q \<Longrightarrow> checkScore_loop bx ps pm = (False, pm)"
  by (induction ps) (simp_all add: qualifies_def)

lemma checkScore_loop_first:
  "(\<forall>q\<in>set pre. \<not> qualifies bx pm q) \<Longrightarrow> qualifies bx pm p \<Longrightarrow>
   checkScore_loop bx (pre @ p # post) pm =
     (True, pm\<lparr>scoredPipes := insert (pipe_id p) (scoredPipes pm)\<rparr>)"
  by (induction pre) (auto simp add: qualifies_def)

lemma first_split:
  "\<exists>q\<in>set ps. P q \<Longrightarrow> \<exists>pre p post. ps = pre @ p # post \<and> (\<forall>q\<in>set pre. \<not> P q) \<and> P p"
  by (metis split_list_first_prop)

lemma filter_key_distinct:
  "distinct (map f xs) \<Longrightarrow> length (filter (\<lambda>q. f q = i) xs) \<le> 1"
proof (induction xs)
  case Nil
  then show ?case by simp
next
  case (Cons a xs)
  show ?case
  proof (cases "f a = i")
    case True
    then have "\<forall>q\<in>set xs. f q \<noteq> i" using Cons.prems by (auto simp add: image_iff)
    then have "filter (\<lambda>q. f q = i) xs = []" by (simp add: filter_empty_conv)
    then show ?thesis using True by simp
  next
    case False
    then show ?thesis using Cons by simp
  qed
qed

text \<open>
  Claim C6, as amended. \<open>checkScore\<close> marks a pipe as scored by putting its id into
  \<open>scoredPipes\<close>. One call leaves the pipes as they are and returns true exactly when some
  pipe qualifies (its right edge is left of the bird's x and its id is not in
  \<open>scoredPipes\<close>). It then adds one id to \<open>scoredPipes\<close>, the id of the first qualifying pipe in
  array order (no pipe before it qualifies), however many qualify; otherwise it adds none.
  So every call reports at most one score and newly marks at most one id; when the ids of
  the pipes in the field are pairwise distinct, it newly marks at most one pipe.
\<close>

theorem checkScore_at_most_one:
  assumes "PipeManager_checkScore b pm = (r, pm')"
  shows "pipes pm' = pipes pm \<and>
         (r \<longleftrightarrow> (\<exists>p\<in>set (pipes pm). qualifies (bird_x b) pm p)) \<and>
         (\<not> r \<longrightarrow> scoredPipes pm' = scoredPipes pm) \<and>
         (r \<longrightarrow> (\<exists>pre p post. pipes pm = pre @ p # post \<and>
                    (\<forall>q\<in>set pre. \<not> qualifies (bird_x b) pm q) \<and> qualifies (bird_x b) pm p \<and>
                    scoredPipes pm' = insert (pipe_id p) (scoredPipes pm))) \<and>
         card (scoredPipes pm' - scoredPipes pm) \<le> 1 \<and>
         (distinct (map pipe_id (pipes pm)) \<longrightarrow>
            length (filter (\<lambda>q. pipe_id q \<in> scoredPipes pm' - scoredPipes pm) (pipes pm)) \<le> 1)"
proof (cases "\<exists>p\<in>set (pipes pm). qualifies (bird_x b) pm p")
  case False
  then have "PipeManager_checkScore b pm = (False, pm)"
    by (simp add: PipeManager_checkScore_def checkScore_loop_none)
  with assms have "r = False" "pm' = pm" by simp_all
  then show ?thesis using False by simp
next
  case True
  then obtain pre p post where sp: "pipes pm = pre @ p # post"
    and npre: "\<forall>q\<in>set pre. \<not> qualifies (bird_x b) pm q" and qp: "qualifies (bird_x b) pm p"
    using first_split[of "pipes pm" "qualifies (bird_x b) pm"] by blast
  have "PipeManager_checkScore b pm =
          (True, pm\<lparr>scoredPipes := insert (pipe_id p) (scoredPipes pm)\<rparr>)"
    using checkScore_loop_first[OF npre qp] sp by (simp add: PipeManager_checkScore_def)
  with assms have r: "r = True"
    and pm': "pm' = pm\<lparr>scoredPipes := insert (pipe_id p) (scoredPipes pm)\<rparr>" by simp_all
  have notin: "pipe_id p \<notin> scoredPipes pm" using qp by (simp add: qualifies_def)
  have diff: "scoredPipes pm' - scoredPipes pm = {pipe_id p}" using pm' notin by auto
  have cnt: "length (filter (\<lambda>q. pipe_id q \<in> scoredPipes pm' - scoredPipes pm) (pipes pm)) \<le> 1"
    if "distinct (map pipe_id (pipes pm))"
    using filter_key_distinct[OF that, of "pipe_id p"] diff by simp
  have "\<exists>pre p post. pipes pm = pre @ p # post \<and>
          (\<forall>q\<in>set pre. \<not> qualifies (bird_x b) pm q) \<and> qualifies (bird_x b) pm p \<and>
          scoredPipes pm' = insert (pipe_id p) (scoredPipes pm)"
    using sp npre qp pm' by auto
  then show ?thesis using True r pm' diff cnt by simp
qed

theorem checkScore_at_most_one_witness:
  "PipeManager_checkScore (Bird 80 200)
     ((PipeManager 320 568)\<lparr>pipes :=
        [\<lparr>pipe_x = 10, gapY = 150, scored = False, pipe_id = 1\<rparr>,
         \<lparr>pipe_x = 20, gapY = 160, scored = False, pipe_id = 2\<rparr>]\<rparr>)
    = (True, (PipeManager 320 568)\<lparr>pipes :=
        [\<lparr>pipe_x = 10, gapY = 150, scored = False, pipe_id = 1\<rparr>,
         \<lparr>pipe_x = 20, gapY = 160, scored = False, pipe_id = 2\<rparr>], scoredPipes := {1}\<rparr>) \<and>
   qualifies 80 ((PipeManager 320 568)\<lparr>pipes :=
        [\<lparr>pipe_x = 10, gapY = 150, scored = False, pipe_id = 1\<rparr>,
         \<lparr>pipe_x = 20, gapY = 160, scored = False, pipe_id = 2\<rparr>]\<rparr>)
      \<lparr>pipe_x = 10, gapY = 150, scored = False, pipe_id = 1\<rparr> \<and>
   qualifies 80 ((PipeManager 320 568)\<lparr>pipes :=
        [\<lparr>pipe_x = 10, gapY = 150, scored = False, pipe_id = 1\<rparr>,
         \<lparr>pipe_x = 20, gapY = 160, scored = False, pipe_id = 2\<rparr>]\<rparr>)
      \<lparr>pipe_x = 20, gapY = 160, scored = False, pipe_id = 2\<rparr> \<and>
   distinct (map pipe_id
        [\<lparr>pipe_x = 10, gapY = 150, scored = False, pipe_id = 1\<rparr>,
         \<lparr>pipe_x = 20, gapY = 160, scored = False, pipe_id = 2\<rparr>]) \<and>
   card ({1::real} - {}) \<le> 1 \<and>
   length (filter (\<lambda>q. pipe_id q \<in> {1} - {})
        [\<lparr>pipe_x = 10, gapY = 150, scored = False, pipe_id = 1\<rparr>,
         \<lparr>pipe_x = 20, gapY = 160, scored = False, pipe_id = 2\<rparr>]) \<le> 1"
proof -
  let ?ps = "[\<lparr>pipe_x = 10, gapY = 150, scored = False, pipe_id = 1\<rparr>,
              \<lparr>pipe_x = 20, gapY = 160, scored = False, pipe_id = 2\<rparr>]"
  let ?pm = "(PipeManager 320 568)\<lparr>pipes := ?ps\<rparr>"
  have run: "PipeManager_checkScore (Bird 80 200) ?pm = (True, ?pm\<lparr>scoredPipes := {1}\<rparr>)"
    by (simp add: PipeManager_checkScore_def PipeManager_def Bird_def)
  have q: "qualifies 80 ?pm \<lparr>pipe_x = 10, gapY = 150, scored = False, pipe_id = 1\<rparr>"
    "qualifies 80 ?pm \<lparr>pipe_x = 20, gapY = 160, scored = False, pipe_id = 2\<rparr>"
    by (simp_all add: qualifies_def PipeManager_def)
  show ?thesis
    using run q checkScore_at_most_one[OF run]
    by (simp add: PipeManager_def)
qed

text \<open>
  Claim C6 as it is written speaks of every field. In a field whose two pipes share the id
  1000.5, both behind the bird and both qualifying, one \<open>checkScore\<close> call puts that id into
  \<open>scoredPipes\<close>: both pipes are marked by the one call, and of the two pipes that qualified
  before it none qualifies after it.
\<close>

theorem checkScore_marks_two_counterexample:
  "\<lparr>pipe_x = 10, gapY = 164.5, scored = False, pipe_id = 1000.5\<rparr>
     \<noteq> \<lparr>pipe_x = 20, gapY = 253.5, scored = False, pipe_id = 1000.5\<rparr> \<and>
   qualifies (bird_x (Bird 80 200))
     ((PipeManager 320 568)\<lparr>pipes :=
        [\<lparr>pipe_x = 10, gapY = 164.5, scored = False, pipe_id = 1000.5\<rparr>,
         \<lparr>pipe_x = 20, gapY = 253.5, scored = False, pipe_id = 1000.5\<rparr>]\<rparr>)
     \<lparr>pipe_x = 10, gapY = 164.5, scored = False, pipe_id = 1000.5\<rparr> \<and>
   qualifies (bird_x (Bird 80 200))
     ((PipeManager 320 568)\<lparr>pipes :=
        [\<lparr>pipe_x = 10, gapY = 164.5, scored = False, pipe_id = 1000.5\<rparr>,
         \<lparr>pipe_x = 20, gapY = 253.5, scored = False, pipe_id = 1000.5\<rparr>]\<rparr>)
     \<lparr>pipe_x = 20, gapY = 253.5, scored = False, pipe_id = 1000.5\<rparr> \<and>
   pipe_id \<lparr>pipe_x = 10, gapY = 164.5, scored = False, pipe_id = 1000.5\<rparr>
     \<in> scoredPipes (snd (PipeManager_checkScore (Bird 80 200)
         ((PipeManager 320 568)\<lparr>pipes :=
            [\<lparr>pipe_x = 10, gapY = 164.5, scored = False, pipe_id = 1000.5\<rparr>,
             \<lparr>pipe_x = 20, gapY = 253.5, scored = False, pipe_id = 1000.5\<rparr>]\<rparr>))) \<and>
   pipe_id \<lparr>pipe_x = 20, gapY = 253.5, scored = False, pipe_id = 1000.5\<rparr>
     \<in> scoredPipes (snd (PipeManager_checkScore (Bird 80 200)
         ((PipeManager 320 568)\<lparr>pipes :=
            [\<lparr>pipe_x = 10, gapY = 164.5, scored = False, pipe_id = 1000.5\<rparr>,
             \<lparr>pipe_x = 20, gapY = 253.5, scored = False, pipe_id = 1000.5\<rparr>]\<rparr>))) \<and>
   length (filter (qualifies (bird_x (Bird 80 200))
       ((PipeManager 320 568)\<lparr>pipes :=
          [\<lparr>pipe_x = 10, gapY = 164.5, scored = False, pipe_id = 1000.5\<rparr>,
           \<lparr>pipe_x = 20, gapY = 253.5, scored = False, pipe_id = 1000.5\<rparr>]\<rparr>))
     (pipes (snd (PipeManager_checkScore (Bird 80 200)
         ((PipeManager 320 568)\<lparr>pipes :=
            [\<lparr>pipe_x = 10, gapY = 164.5, scored = False, pipe_id = 1000.5\<rparr>,
             \<lparr>pipe_x = 20, gapY = 253.5, scored = False, pipe_id = 1000.5\<rparr>]\<rparr>))))) = 2 \<and>
   length (filter (qualifies (bird_x (Bird 80 200))
       (snd (PipeManager_checkScore (Bird 80 200)
         ((PipeManager 320 568)\<lparr>pipes :=
            [\<lparr>pipe_x = 10, gapY = 164.5, scored = False, pipe_id = 1000.5\<rparr>,
             \<lparr>pipe_x = 20, gapY = 253.5, scored = False, pipe_id = 1000.5\<rparr>]\<rparr>))))
     (pipes (snd (PipeManager_checkScore (Bird 80 200)
         ((PipeManager 320 568)\<lparr>pipes :=
            [\<lparr>pipe_x = 10, gapY = 164.5, scored = False, pipe_id = 1000.5\<rparr>,
             \<lparr>pipe_x = 20, gapY = 253.5, scored = False, pipe_id = 1000.5\<rparr>]\<rparr>))))) = 0"
  by (simp add: PipeManager_checkScore_def PipeManager_def Bird_def qualifies_def)

section \<open>InputHandler: the jump cooldown\<close>

text \<open>
  Over a whole sequence of jump events the subscribers run once per event that the
  specification's debounce accepts, and the handler keeps its subscribers and its cooldown.
\<close>

lemma handleJumps_refines:
  "jumpCooldown ih = 100 \<Longrightarrow>
   snd (InputHandler_handleJumps ts (ih, w)) =
     (run_callbacks (callbacks ih jump) ^^ length (filter id (spec_accepted (lastJumpTime ih) ts))) w
   \<and> callbacks (fst (InputHandler_handleJumps ts (ih, w))) = callbacks ih
   \<and> jumpCooldown (fst (InputHandler_handleJumps ts (ih, w))) = 100"
proof (induction ts arbitrary: ih w)
  case Nil
  then show ?case by simp
next
  case (Cons t ts)
  show ?case
  proof (cases "t - lastJumpTime ih \<ge> 100")
    case True
    let ?ih1 = "ih\<lparr>lastJumpTime := t, isJumping := True\<rparr>"
    have st: "InputHandler_handleJump t (ih, w) = (?ih1, run_callbacks (callbacks ih jump) w)"
      using True Cons.prems
      by (simp add: InputHandler_handleJump_def InputHandler_triggerCallbacks_def Let_def)
    have c1: "jumpCooldown ?ih1 = 100" using Cons.prems by simp
    show ?thesis
      using Cons.IH[OF c1, of "run_callbacks (callbacks ih jump) w"] True st
      by (simp add: funpow_swap1)
  next
    case False
    have st: "InputHandler_handleJump t (ih, w) = (ih, w)"
      using False Cons.prems by (simp add: InputHandler_handleJump_def Let_def)
    show ?thesis using Cons.IH[OF Cons.prems, of w] False st by simp
  qed
qed

text \<open>
  Claim C8. \<open>lastJumpTime\<close> is the time of the last accepted jump event. With the cooldown
  of 100 ms, a jump event at time \<open>now\<close> is accepted when \<open>now - lastJumpTime \<ge> 100\<close>: the jump
  subscribers run, in subscription order, and \<open>lastJumpTime\<close> becomes \<open>now\<close>. It is dropped
  when \<open>now - lastJumpTime < 100\<close>: nothing changes and no subscriber runs. Of three events,
  the first accepted, the second less than 100 ms after the first and the third at least
  100 ms after the first, the second is dropped and the third runs the subscribers again.
  Over any sequence of events the subscribers run once for each event that comes at least
  100 ms after the last accepted one.
\<close>

theorem handleJump_cooldown:
  assumes "jumpCooldown ih = 100"
  shows "(100 \<le> now - lastJumpTime ih \<longrightarrow>
            InputHandler_handleJump now (ih, w) =
              (ih\<lparr>lastJumpTime := now, isJumping := True\<rparr>, run_callbacks (callbacks ih jump) w)) \<and>
         (now - lastJumpTime ih < 100 \<longrightarrow> InputHandler_handleJump now (ih, w) = (ih, w)) \<and>
         (100 \<le> t1 - lastJumpTime ih \<and> t2 - t1 < 100 \<and> 100 \<le> t3 - t1 \<longrightarrow>
            InputHandler_handleJump t2 (InputHandler_handleJump t1 (ih, w)) =
              (ih\<lparr>lastJumpTime := t1, isJumping := True\<rparr>, run_callbacks (callbacks ih jump) w) \<and>
            InputHandler_handleJump t3
              (InputHandler_handleJump t2 (InputHandler_handleJump t1 (ih, w))) =
              (ih\<lparr>lastJumpTime := t3, isJumping := True\<rparr>,
               run_callbacks (callbacks ih jump) (run_callbacks (callbacks ih jump) w))) \<and>
         snd (InputHandler_handleJumps ts (ih, w)) =
           (run_callbacks (callbacks ih jump)
              ^^ length (filter id (spec_accepted (lastJumpTime ih) ts))) w"
proof -
  have step: "(100 \<le> now - lastJumpTime ih \<longrightarrow>
            InputHandler_handleJump now (ih, w) =
              (ih\<lparr>lastJumpTime := now, isJumping := True\<rparr>, run_callbacks (callbacks ih jump) w)) \<and>
         (now - lastJumpTime ih < 100 \<longrightarrow> InputHandler_handleJump now (ih, w) = (ih, w)) \<and>
         (100 \<le> t1 - lastJumpTime ih \<and> t2 - t1 < 100 \<and> 100 \<le> t3 - t1 \<longrightarrow>
            InputHandler_handleJump t2 (InputHandler_handleJump t1 (ih, w)) =
              (ih\<lparr>lastJumpTime := t1, isJumping := True\<rparr>, run_callbacks (callbacks ih jump) w) \<and>
            InputHandler_handleJump t3
              (InputHandler_handleJump t2 (InputHandler_handleJump t1 (ih, w))) =
              (ih\<lparr>lastJumpTime := t3, isJumping := True\<rparr>,
               run_callbacks (callbacks ih jump) (run_callbacks (callbacks ih jump) w)))"
    using assms
    by (simp add: InputHandler_handleJump_def InputHandler_triggerCallbacks_def Let_def)
  show ?thesis using step handleJumps_refines[OF assms, of ts w] by blast
qed

theorem handleJump_cooldown_witness:
  "jumpCooldown (InputHandler_on jump (\<lambda>n::nat. Returned (Suc n)) InputHandler) = 100 \<and>
   (100::int) \<le> 1000 - lastJumpTime (InputHandler_on jump (\<lambda>n::nat. Returned (Suc n)) InputHandler) \<and>
   (1050::int) - 1000 < 100 \<and> (100::int) \<le> 1100 - 1000 \<and>
   snd (InputHandler_handleJump 1050 (InputHandler_handleJump 1000
          (InputHandler_on jump (\<lambda>n::nat. Returned (Suc n)) InputHandler, 0))) = 1 \<and>
   snd (InputHandler_handleJump 1100 (InputHandler_handleJump 1050 (InputHandler_handleJump 1000
          (InputHandler_on jump (\<lambda>n::nat. Returned (Suc n)) InputHandler, 0)))) = 2 \<and>
   lastJumpTime (fst (InputHandler_handleJump 1100 (InputHandler_handleJump 1050
          (InputHandler_handleJump 1000
            (InputHandler_on jump (\<lambda>n::nat. Returned (Suc n)) InputHandler, 0))))) = 1100"
proof -
  let ?ih = "InputHandler_on jump (\<lambda>n::nat. Returned (Suc n)) InputHandler"
  have c: "jumpCooldown ?ih = 100" by (simp add: InputHandler_on_def InputHandler_def)
  have l: "lastJumpTime ?ih = 0" by (simp add: InputHandler_on_def InputHandler_def)
  have cb: "callbacks ?ih jump = [\<lambda>n. Returned (Suc n)]"
    by (simp add: InputHandler_on_def InputHandler_def)
  have h: "100 \<le> 1000 - lastJumpTime ?ih \<and> (1050::int) - 1000 < 100 \<and> (100::int) \<le> 1100 - 1000"
    using l by simp
  have e: "run_callbacks (callbacks ?ih jump) 0 = 1"
    "run_callbacks (callbacks ?ih jump) (run_callbacks (callbacks ?ih jump) 0) = 2"
    by (simp_all add: cb)
  from handleJump_cooldown[OF c, of 1000 0 1000 1050 1100] h
  have r2: "InputHandler_handleJump 1050 (InputHandler_handleJump 1000 (?ih, 0)) =
              (?ih\<lparr>lastJumpTime := 1000, isJumping := True\<rparr>,
               run_callbacks (callbacks ?ih jump) 0)"
    and r3: "InputHandler_handleJump 1100
               (InputHandler_handleJump 1050 (InputHandler_handleJump 1000 (?ih, 0))) =
              (?ih\<lparr>lastJumpTime := 1100, isJumping := True\<rparr>,
               run_callbacks (callbacks ?ih jump) (run_callbacks (callbacks ?ih jump) 0))"
    by blast+
  have s2: "snd (InputHandler_handleJump 1050 (InputHandler_handleJump 1000 (?ih, 0))) = 1"
    using r2 e(1) by simp
  have s3: "snd (InputHandler_handleJump 1100
                   (InputHandler_handleJump 1050 (InputHandler_handleJump 1000 (?ih, 0)))) = 2"
    using r3 e(2) by simp
  have s4: "lastJumpTime (fst (InputHandler_handleJump 1100
                   (InputHandler_handleJump 1050 (InputHandler_handleJump 1000 (?ih, 0))))) = 1100"
    using r3 by simp
  show ?thesis
    using c h s2 s3 s4 by blast
qed

section \<open>GameStateManager: what the input events do\<close>

lemma setup_callbacks:
  "callbacks (setupInputCallbacks InputHandler) jump = [onJump]"
  "callbacks (setupInputCallbacks InputHandler) gameStart = [onGameStart]"
  "callbacks (setupInputCallbacks InputHandler) gameRestart = [onGameRestart]"
  by (simp_all add: setupInputCallbacks_def InputHandler_on_def InputHandler_def)

text \<open>
  Claim C9, as amended. The input handler carries the subscribers that the manager
  registered. In the menu, the start event leads to the playing state with the current score
  0 and the pipe manager, pipes included, as it was. Of the input events, only the restart
  event in the game-over state resets the pipes: it leads to the playing state with the
  current score 0, no pipes and no scored ids, while a start event outside the menu and a
  restart event outside the game-over state change nothing and a jump event in any state
  leaves the pipe manager as it was. Apart from the input events, entering the menu state
  through \<open>setState\<close> also empties the pipes and the scored ids.
\<close>

theorem start_keeps_pipes:
  assumes "callbacks ih = callbacks (setupInputCallbacks InputHandler)"
  shows "(currentState g = MENU \<longrightarrow>
            currentState (InputHandler_triggerCallbacks gameStart ih g) = PLAYING \<and>
            currentScore (scoreManager (InputHandler_triggerCallbacks gameStart ih g)) = 0 \<and>
            pipeManager (InputHandler_triggerCallbacks gameStart ih g) = pipeManager g) \<and>
         (currentState g = GAME_OVER \<longrightarrow>
            currentState (InputHandler_triggerCallbacks gameRestart ih g) = PLAYING \<and>
            currentScore (scoreManager (InputHandler_triggerCallbacks gameRestart ih g)) = 0 \<and>
            pipes (pipeManager (InputHandler_triggerCallbacks gameRestart ih g)) = [] \<and>
            scoredPipes (pipeManager (InputHandler_triggerCallbacks gameRestart ih g)) = {}) \<and>
         (currentState g \<noteq> MENU \<longrightarrow> InputHandler_triggerCallbacks gameStart ih g = g) \<and>
         (currentState g \<noteq> GAME_OVER \<longrightarrow> InputHandler_triggerCallbacks gameRestart ih g = g) \<and>
         pipeManager (InputHandler_triggerCallbacks jump ih g) = pipeManager g \<and>
         pipeManager (snd (InputHandler_handleJump now (ih, g))) = pipeManager g \<and>
         pipes (pipeManager (setState MENU g)) = [] \<and>
         scoredPipes (pipeManager (setState MENU g)) = {}"
  using assms
  by (simp add: InputHandler_triggerCallbacks_def InputHandler_handleJump_def Let_def
      setup_callbacks onGameStart_def onGameRestart_def onJump_def
      startGame_def restartGame_def setState_def enterPlayingState_def enterMenuState_def
      resetGameObjects_def ScoreManager_resetScore_def PipeManager_reset_def)

theorem start_keeps_pipes_witness:
  "callbacks (setupInputCallbacks InputHandler) = callbacks (setupInputCallbacks InputHandler) \<and>
   currentState
     \<lparr>bird = Bird 80 200,
      pipeManager = (PipeManager 320 568)\<lparr>pipes :=
         [\<lparr>pipe_x = 300, gapY = 150, scored = False, pipe_id = 1\<rparr>]\<rparr>,
      scoreManager = \<lparr>currentScore = 3, highScore = 7, scoreAnimations = [], scorePerPipe = 1\<rparr>,
      storage = \<lparr>flappyBirdHighScore = Some 7, flappyBirdGamesPlayed = None\<rparr>,
      currentState = MENU, menuBirdY = 100, menuBirdVelocity = 0, collisionPoint = None\<rparr> = MENU \<and>
   currentState (InputHandler_triggerCallbacks gameStart (setupInputCallbacks InputHandler)
     \<lparr>bird = Bird 80 200,
      pipeManager = (PipeManager 320 568)\<lparr>pipes :=
         [\<lparr>pipe_x = 300, gapY = 150, scored = False, pipe_id = 1\<rparr>]\<rparr>,
      scoreManager = \<lparr>currentScore = 3, highScore = 7, scoreAnimations = [], scorePerPipe = 1\<rparr>,
      storage = \<lparr>flappyBirdHighScore = Some 7, flappyBirdGamesPlayed = None\<rparr>,
      currentState = MENU, menuBirdY = 100, menuBirdVelocity = 0, collisionPoint = None\<rparr>)
     = PLAYING \<and>
   currentScore (scoreManager
     (InputHandler_triggerCallbacks gameStart (setupInputCallbacks InputHandler)
     \<lparr>bird = Bird 80 200,
      pipeManager = (PipeManager 320 568)\<lparr>pipes :=
         [\<lparr>pipe_x = 300, gapY = 150, scored = False, pipe_id = 1\<rparr>]\<rparr>,
      scoreManager = \<lparr>currentScore = 3, highScore = 7, scoreAnimations = [], scorePerPipe = 1\<rparr>,
      storage = \<lparr>flappyBirdHighScore = Some 7, flappyBirdGamesPlayed = None\<rparr>,
      currentState = MENU, menuBirdY = 100, menuBirdVelocity = 0, collisionPoint = None\<rparr>)) = 0 \<and>
   pipes (pipeManager
     (InputHandler_triggerCallbacks gameStart (setupInputCallbacks InputHandler)
     \<lparr>bird = Bird 80 200,
      pipeManager = (PipeManager 320 568)\<lparr>pipes :=
         [\<lparr>pipe_x = 300, gapY = 150, scored = False, pipe_id = 1\<rparr>]\<rparr>,
      scoreManager = \<lparr>currentScore = 3, highScore = 7, scoreAnimations = [], scorePerPipe = 1\<rparr>,
      storage = \<lparr>flappyBirdHighScore = Some 7, flappyBirdGamesPlayed = None\<rparr>,
      currentState = MENU, menuBirdY = 100, menuBirdVelocity = 0, collisionPoint = None\<rparr>))
     = [\<lparr>pipe_x = 300, gapY = 150, scored = False, pipe_id = 1\<rparr>] \<and>
   pipes (pipeManager
     (InputHandler_triggerCallbacks gameRestart (setupInputCallbacks InputHandler)
     \<lparr>bird = Bird 80 200,
      pipeManager = (PipeManager 320 568)\<lparr>pipes :=
         [\<lparr>pipe_x = 300, gapY = 150, scored = False, pipe_id = 1\<rparr>]\<rparr>,
      scoreManager = \<lparr>currentScore = 3, highScore = 7, scoreAnimations = [], scorePerPipe = 1\<rparr>,
      storage = \<lparr>flappyBirdHighScore = Some 7, flappyBirdGamesPlayed = None\<rparr>,
      currentState = GAME_OVER, menuBirdY = 100, menuBirdVelocity = 0,
      collisionPoint = None\<rparr>)) = []"
proof -
  let ?ih = "setupInputCallbacks InputHandler"
  let ?g = "\<lambda>st. \<lparr>bird = Bird 80 200,
      pipeManager = (PipeManager 320 568)\<lparr>pipes :=
         [\<lparr>pipe_x = 300, gapY = 150, scored = False, pipe_id = 1\<rparr>]\<rparr>,
      scoreManager = \<lparr>currentScore = 3, highScore = 7, scoreAnimations = [], scorePerPipe = 1\<rparr>,
      storage = \<lparr>flappyBirdHighScore = Some 7, flappyBirdGamesPlayed = None\<rparr>,
      currentState = st, menuBirdY = 100, menuBirdVelocity = 0, collisionPoint = None\<rparr>"
  have h: "callbacks ?ih = callbacks ?ih" by simp
  show ?thesis
    using start_keeps_pipes[OF h, of "?g MENU"] start_keeps_pipes[OF h, of "?g GAME_OVER"]
    by simp
qed

text \<open>
  Claim C9 as it is written has the pipes reset only by a restart from the game-over state.
  \<open>setState(MENU)\<close>, which \<open>Game.start\<close> calls, resets them too: from a playing game with one
  pipe it leaves no pipe.
\<close>

theorem menu_entry_resets_counterexample:
  "currentState
     \<lparr>bird = Bird 80 200,
      pipeManager = (PipeManager 320 568)\<lparr>pipes :=
         [\<lparr>pipe_x = 300, gapY = 150, scored = False, pipe_id = 1\<rparr>]\<rparr>,
      scoreManager = \<lparr>currentScore = 3, highScore = 7, scoreAnimations = [], scorePerPipe = 1\<rparr>,
      storage = \<lparr>flappyBirdHighScore = Some 7, flappyBirdGamesPlayed = Some 1\<rparr>,
      currentState = PLAYING, menuBirdY = 100, menuBirdVelocity = 0, collisionPoint = None\<rparr>
     \<noteq> GAME_OVER \<and>
   pipes (pipeManager
     \<lparr>bird = Bird 80 200,
      pipeManager = (PipeManager 320 568)\<lparr>pipes :=
         [\<lparr>pipe_x = 300, gapY = 150, scored = False, pipe_id = 1\<rparr>]\<rparr>,
      scoreManager = \<lparr>currentScore = 3, highScore = 7, scoreAnimations = [], scorePerPipe = 1\<rparr>,
      storage = \<lparr>flappyBirdHighScore = Some 7, flappyBirdGamesPlayed = Some 1\<rparr>,
      currentState = PLAYING, menuBirdY = 100, menuBirdVelocity = 0, collisionPoint = None\<rparr>)
     = [\<lparr>pipe_x = 300, gapY = 150, scored = False, pipe_id = 1\<rparr>] \<and>
   pipes (pipeManager (setState MENU
     \<lparr>bird = Bird 80 200,
      pipeManager = (PipeManager 320 568)\<lparr>pipes :=
         [\<lparr>pipe_x = 300, gapY = 150, scored = False, pipe_id = 1\<rparr>]\<rparr>,
      scoreManager = \<lparr>currentScore = 3, highScore = 7, scoreAnimations = [], scorePerPipe = 1\<rparr>,
      storage = \<lparr>flappyBirdHighScore = Some 7, flappyBirdGamesPlayed = Some 1\<rparr>,
      currentState = PLAYING, menuBirdY = 100, menuBirdVelocity = 0, collisionPoint = None\<rparr>))
     = [] \<and>
   currentState (setState MENU
     \<lparr>bird = Bird 80 200,
      pipeManager = (PipeManager 320 568)\<lparr>pipes :=
         [\<lparr>pipe_x = 300, gapY = 150, scored = False, pipe_id = 1\<rparr>]\<rparr>,
      scoreManager = \<lparr>currentScore = 3, highScore = 7, scoreAnimations = [], scorePerPipe = 1\<rparr>,
      storage = \<lparr>flappyBirdHighScore = Some 7, flappyBirdGamesPlayed = Some 1\<rparr>,
      currentState = PLAYING, menuBirdY = 100, menuBirdVelocity = 0, collisionPoint = None\<rparr>)
     = MENU"
  by (simp add: setState_def enterMenuState_def resetGameObjects_def PipeManager_reset_def)

text \<open>
  Claim C10. The input handler carries the subscribers that the manager registered. A jump
  event that arrives in the menu or in the game-over state, whether the cooldown lets it
  through or not, leaves the whole game as it was, the bird with its height, velocity and
  rotation included. In the playing state the jump subscriber applies \<open>Bird.jump\<close> to the
  bird and changes nothing else; \<open>handleJump\<close> does so when the cooldown has elapsed.
\<close>

theorem jump_only_when_playing:
  assumes "callbacks ih = callbacks (setupInputCallbacks InputHandler)"
  shows "(currentState g = MENU \<or> currentState g = GAME_OVER \<longrightarrow>
            snd (InputHandler_handleJump now (ih, g)) = g \<and>
            bird (snd (InputHandler_handleJump now (ih, g))) = bird g \<and>
            InputHandler_triggerCallbacks jump ih g = g) \<and>
         (currentState g = PLAYING \<longrightarrow>
            InputHandler_triggerCallbacks jump ih g = g\<lparr>bird := Bird_jump (bird g)\<rparr> \<and>
            (jumpCooldown ih \<le> now - lastJumpTime ih \<longrightarrow>
               snd (InputHandler_handleJump now (ih, g)) = g\<lparr>bird := Bird_jump (bird g)\<rparr>))"
  using assms
  by (auto simp add: InputHandler_handleJump_def InputHandler_triggerCallbacks_def Let_def
      setup_callbacks onJump_def)

theorem jump_only_when_playing_witness:
  "callbacks (setupInputCallbacks InputHandler) = callbacks (setupInputCallbacks InputHandler) \<and>
   bird (snd (InputHandler_handleJump 1000 (setupInputCallbacks InputHandler,
     \<lparr>bird = Bird 80 200, pipeManager = PipeManager 320 568,
      scoreManager = \<lparr>currentScore = 0, highScore = 7, scoreAnimations = [], scorePerPipe = 1\<rparr>,
      storage = \<lparr>flappyBirdHighScore = Some 7, flappyBirdGamesPlayed = None\<rparr>,
      currentState = MENU, menuBirdY = 100, menuBirdVelocity = 0, collisionPoint = None\<rparr>)))
     = Bird 80 200 \<and>
   bird (snd (InputHandler_handleJump 1000 (setupInputCallbacks InputHandler,
     \<lparr>bird = Bird 80 200, pipeManager = PipeManager 320 568,
      scoreManager = \<lparr>currentScore = 0, highScore = 7, scoreAnimations = [], scorePerPipe = 1\<rparr>,
      storage = \<lparr>flappyBirdHighScore = Some 7, flappyBirdGamesPlayed = None\<rparr>,
      currentState = GAME_OVER, menuBirdY = 100, menuBirdVelocity = 0, collisionPoint = None\<rparr>)))
     = Bird 80 200 \<and>
   jumpCooldown (setupInputCallbacks InputHandler :: game_state_manager input_handler)
     \<le> 1000 - lastJumpTime (setupInputCallbacks InputHandler :: game_state_manager input_handler) \<and>
   bird (snd (InputHandler_handleJump 1000 (setupInputCallbacks InputHandler,
     \<lparr>bird = Bird 80 200, pipeManager = PipeManager 320 568,
      scoreManager = \<lparr>currentScore = 0, highScore = 7, scoreAnimations = [], scorePerPipe = 1\<rparr>,
      storage = \<lparr>flappyBirdHighScore = Some 7, flappyBirdGamesPlayed = None\<rparr>,
      currentState = PLAYING, menuBirdY = 100, menuBirdVelocity = 0, collisionPoint = None\<rparr>)))
     = Bird_jump (Bird 80 200)"
proof -
  let ?ih = "setupInputCallbacks InputHandler"
  let ?g = "\<lambda>st. \<lparr>bird = Bird 80 200, pipeManager = PipeManager 320 568,
      scoreManager = \<lparr>currentScore = 0, highScore = 7, scoreAnimations = [], scorePerPipe = 1\<rparr>,
      storage = \<lparr>flappyBirdHighScore = Some 7, flappyBirdGamesPlayed = None\<rparr>,
      currentState = st, menuBirdY = 100, menuBirdVelocity = 0, collisionPoint = None\<rparr>"
  have h: "callbacks ?ih = callbacks ?ih" by simp
  have c: "jumpCooldown ?ih \<le> 1000 - lastJumpTime ?ih"
    by (simp add: setupInputCallbacks_def InputHandler_on_def InputHandler_def)
  show ?thesis
    using c jump_only_when_playing[OF h, of "?g MENU" 1000]
      jump_only_when_playing[OF h, of "?g GAME_OVER" 1000]
      jump_only_when_playing[OF h, of "?g PLAYING" 1000]
    by simp
qed

end
